theory Spec2Isabelle
  imports Main
begin

section \<open>Python values and exceptions\<close>

text \<open>
  The two scanner scripts (\<^verbatim>\<open>scan-repositories.py\<close> and \<^verbatim>\<open>scan-platforms.py\<close>)
  talk to remote services and catch what these calls raise. Every call that can raise
  returns a sum here: \<open>Inl\<close> the exception, \<open>Inr\<close> the value.
  \<open>GithubException\<close> is the one class \<^verbatim>\<open>scan_repository\<close> catches by name,
  \<open>ImportError\<close> the one \<^verbatim>\<open>scan_notion\<close> catches by name; \<open>ConnectionError\<close>
  stands for the failures of the transport that are neither.
\<close>

datatype exn =
    GithubException
  | ImportError
  | KeyError
  | IndexError
  | AttributeError
  | TypeError
  | ConnectionError

text \<open>
  A \<^verbatim>\<open>datetime\<close> is either naive or timezone-aware; the integer is its position on
  the time line in microseconds. \<^verbatim>\<open>datetime.now()\<close> is naive, and Python refuses
  to subtract an aware value from a naive one (\<^verbatim>\<open>TypeError\<close>).
\<close>

datatype datetime = Naive int | Aware int

definition sub_datetime :: "int \<Rightarrow> datetime \<Rightarrow> exn + int" where
  "sub_datetime now d = (case d of Naive t \<Rightarrow> Inr (now - t) | Aware t \<Rightarrow> Inl TypeError)"

text \<open>
  \<^verbatim>\<open>timedelta.days\<close>: a timedelta is normalised with \<open>0 \<le> seconds < 86400\<close> and
  \<open>0 \<le> microseconds < 10^6\<close>, so the days are the floor of the difference.
\<close>

definition timedelta_days :: "int \<Rightarrow> int" where
  "timedelta_days delta = delta div 86400000000"

text \<open>
  A \<^verbatim>\<open>PaginatedList\<close> is fetched page by page while it is iterated: the elements
  delivered, and the exception that ended the iteration early, if any.
\<close>

type_synonym 'a paginated = "'a list \<times> exn option"

text \<open>Iterating to the end: a list comprehension over the whole stream.\<close>

definition iterate_all :: "'a paginated \<Rightarrow> exn + 'a list" where
  "iterate_all p = (case snd p of None \<Rightarrow> Inr (fst p) | Some e \<Rightarrow> Inl e)"

text \<open>
  The slice \<^verbatim>\<open>p[:n]\<close> stops fetching after \<open>n\<close> elements, so it raises only when
  the stream fails before delivering them.
\<close>

definition slice_upto :: "nat \<Rightarrow> 'a paginated \<Rightarrow> exn + 'a list" where
  "slice_upto n p =
     (if n \<le> length (fst p) then Inr (take n (fst p))
      else case snd p of None \<Rightarrow> Inr (fst p) | Some e \<Rightarrow> Inl e)"

section \<open>The repository scanner\<close>

datatype classification = CORE | ACTIVE | CONSOLIDATE | ARCHIVE | DEPRECATE

record commit =
  author_date :: datetime

record workflow =
  workflow_name :: string
  workflow_path :: string
  workflow_state :: string

text \<open>
  A PyGithub \<^verbatim>\<open>Repository\<close>: its attributes, and the outcome of each of the calls
  the scanner makes on it (each is made at most once per repository).
\<close>

record repo =
  repo_id :: int
  name :: string
  full_name :: string
  description :: "string option"
  html_url :: string
  is_private :: bool
  fork :: bool
  archived :: bool
  disabled :: bool
  created_at :: datetime
  updated_at :: datetime
  pushed_at :: "datetime option"
  repo_size :: int
  default_branch :: string
  stargazers_count :: int
  forks_count :: int
  watchers_count :: int
  open_issues_count :: int
  has_issues :: bool
  has_projects :: bool
  has_wiki :: bool
  has_pages :: bool
  has_downloads :: bool
  license :: "string option"
  get_commits :: "exn + commit list"
  get_workflows :: "workflow paginated"
  get_languages :: "exn + (string \<times> int) list"
  get_branches :: "string paginated"
  get_tags :: "string paginated"
  get_topics :: "exn + string list"

subsection \<open>\<^verbatim>\<open>classify_repository\<close>\<close>

definition core_repos :: "string list" where
  "core_repos =
     [''trancendos-ecosystem'', ''Luminous-MastermindAI'', ''Trancendos-Core'',
      ''compliance-framework'', ''platform-sync-buffer'', ''Trancendos'']"

text \<open>\<^verbatim>\<open>commits[0] if commits.totalCount > 0 else None\<close>\<close>

definition latest_commit :: "commit list \<Rightarrow> commit option" where
  "latest_commit commits = (case commits of [] \<Rightarrow> None | c # _ \<Rightarrow> Some c)"

text \<open>
  The \<^verbatim>\<open>try\<close> block of \<^verbatim>\<open>classify_repository\<close>; its bare \<^verbatim>\<open>except\<close> turns every
  exception into 999 days. \<open>now\<close> is what \<^verbatim>\<open>datetime.now()\<close> reads.
\<close>

definition days_since_commit :: "int \<Rightarrow> repo \<Rightarrow> int" where
  "days_since_commit now r =
     (case get_commits r of
        Inl e \<Rightarrow> 999
      | Inr commits \<Rightarrow>
          (case latest_commit commits of
             None \<Rightarrow> 999
           | Some c \<Rightarrow>
               (case sub_datetime now (author_date c) of
                  Inl e \<Rightarrow> 999
                | Inr delta \<Rightarrow> timedelta_days delta)))"

definition classify_repository :: "int \<Rightarrow> repo \<Rightarrow> classification" where
  "classify_repository now r =
     (let days = days_since_commit now r;
          open_issues = open_issues_count r
      in if name r \<in> set core_repos then CORE
         else if days < 30 \<or> open_issues > 5 then ACTIVE
         else if days > 180 \<and> repo_size r > 0 then ARCHIVE
         else if fork r \<or> repo_size r = 0 then DEPRECATE
         else CONSOLIDATE)"

subsection \<open>The decision table of the specification\<close>

text \<open>
  The specification words the policy as an ordered list of rules, the first matching
  rule giving the label and \<open>CONSOLIDATE\<close> being the default. A rule is a condition on
  the days since the last activity and the resource, with its label.
\<close>

type_synonym rule = "(int \<Rightarrow> repo \<Rightarrow> bool) \<times> classification"

definition policy_rules :: "rule list" where
  "policy_rules =
     [(\<lambda>days r. name r \<in> set core_repos, CORE),
      (\<lambda>days r. days < 30 \<or> open_issues_count r > 5, ACTIVE),
      (\<lambda>days r. days > 180 \<and> repo_size r > 0, ARCHIVE),
      (\<lambda>days r. fork r \<or> repo_size r = 0, DEPRECATE)]"

fun first_match :: "rule list \<Rightarrow> int \<Rightarrow> repo \<Rightarrow> classification" where
  "first_match [] days r = CONSOLIDATE"
| "first_match (rl # rls) days r =
     (if fst rl days r then snd rl else first_match rls days r)"

text \<open>No timestamp of a last commit could be retrieved.\<close>

definition activity_unknown :: "repo \<Rightarrow> bool" where
  "activity_unknown r =
     (case get_commits r of
        Inl e \<Rightarrow> True
      | Inr commits \<Rightarrow>
          (case latest_commit commits of
             None \<Rightarrow> True
           | Some c \<Rightarrow> (case author_date c of Naive t \<Rightarrow> False | Aware t \<Rightarrow> True)))"

subsection \<open>\<^verbatim>\<open>scan_repository\<close>\<close>

text \<open>
  The dict \<^verbatim>\<open>repo_data\<close>, one field per key. The three timestamps are kept as the
  \<^verbatim>\<open>datetime\<close> values that \<^verbatim>\<open>isoformat()\<close> renders.
\<close>

record repo_data =
  repo_id :: int
  name :: string
  full_name :: string
  description :: "string option"
  html_url :: string
  classification :: classification
  visibility :: string
  fork :: bool
  archived :: bool
  disabled :: bool
  created_at :: datetime
  updated_at :: datetime
  pushed_at :: "datetime option"
  size_kb :: int
  default_branch :: string
  languages :: "(string \<times> int) list"
  stars :: int
  forks :: int
  watchers :: int
  open_issues :: int
  has_issues :: bool
  has_projects :: bool
  has_wiki :: bool
  has_pages :: bool
  has_downloads :: bool
  topics :: "string list"
  branches :: "string list"
  tags :: "string list"
  workflows :: "workflow list"
  license :: "string option"

text \<open>\<^verbatim>\<open>self.scan_results\<close> of a \<^verbatim>\<open>RepositoryScanner\<close>.\<close>

record scan_results =
  scan_timestamp :: datetime
  scanner_version :: string
  total_repos :: nat
  repositories :: "repo_data list"
  classifications :: "classification \<Rightarrow> string list"

text \<open>\<^verbatim>\<open>__init__\<close>; \<open>utcnow\<close> is what \<^verbatim>\<open>datetime.utcnow()\<close> reads.\<close>

definition init_scan_results :: "datetime \<Rightarrow> scan_results" where
  "init_scan_results utcnow =
     \<lparr>scan_timestamp = utcnow, scanner_version = ''1.0.0'', total_repos = 0,
      repositories = [], classifications = (\<lambda>c. [])\<rparr>"

text \<open>
  The workflows loop sits in a \<^verbatim>\<open>try\<close> of its own whose bare \<^verbatim>\<open>except\<close> passes:
  the workflows appended before a failure stay in the list.
\<close>

definition collect_workflows :: "workflow paginated \<Rightarrow> workflow list" where
  "collect_workflows p = fst p"

text \<open>
  The body of the outer \<^verbatim>\<open>try\<close> of \<^verbatim>\<open>scan_repository\<close> up to the dict: the calls
  in the order the source makes them, the first exception leaving the body.
\<close>

definition build_repo_data :: "int \<Rightarrow> repo \<Rightarrow> exn + repo_data" where
  "build_repo_data now r =
     (let wfs = collect_workflows (get_workflows r) in
      case get_languages r of Inl e \<Rightarrow> Inl e | Inr langs \<Rightarrow>
      (case iterate_all (get_branches r) of Inl e \<Rightarrow> Inl e | Inr brs \<Rightarrow>
      (case slice_upto 10 (get_tags r) of Inl e \<Rightarrow> Inl e | Inr tgs \<Rightarrow>
      (let cls = classify_repository now r in
       case get_topics r of Inl e \<Rightarrow> Inl e | Inr tps \<Rightarrow>
         Inr \<lparr>repo_id = repo.repo_id r,
              name = repo.name r,
              full_name = repo.full_name r,
              description = repo.description r,
              html_url = repo.html_url r,
              classification = cls,
              visibility = (if is_private r then ''private'' else ''public''),
              fork = repo.fork r,
              archived = repo.archived r,
              disabled = repo.disabled r,
              created_at = repo.created_at r,
              updated_at = repo.updated_at r,
              pushed_at = repo.pushed_at r,
              size_kb = repo_size r,
              default_branch = repo.default_branch r,
              languages = langs,
              stars = stargazers_count r,
              forks = forks_count r,
              watchers = watchers_count r,
              open_issues = open_issues_count r,
              has_issues = repo.has_issues r,
              has_projects = repo.has_projects r,
              has_wiki = repo.has_wiki r,
              has_pages = repo.has_pages r,
              has_downloads = repo.has_downloads r,
              topics = tps,
              branches = brs,
              tags = tgs,
              workflows = wfs,
              license = repo.license r\<rparr>))))"

text \<open>
  \<^verbatim>\<open>scan_repository\<close>: the data is appended to \<^verbatim>\<open>repositories\<close> and the name to the
  list of its classification. A \<^verbatim>\<open>GithubException\<close> is printed and gives \<^verbatim>\<open>None\<close>
  with the results untouched; any other exception leaves the function.
\<close>

definition scan_repository ::
    "int \<Rightarrow> scan_results \<Rightarrow> repo \<Rightarrow> exn + (repo_data option \<times> scan_results)" where
  "scan_repository now st r =
     (case build_repo_data now r of
        Inr d \<Rightarrow>
          Inr (Some d,
               st\<lparr>repositories := repositories st @ [d],
                  classifications := (classifications st)
                    (classification d := classifications st (classification d) @ [repo.name r])\<rparr>)
      | Inl e \<Rightarrow> (if e = GithubException then Inr (None, st) else Inl e))"

subsection \<open>\<^verbatim>\<open>scan_all_repositories\<close>\<close>

text \<open>\<^verbatim>\<open>max_repos and count >= max_repos\<close>: \<^verbatim>\<open>None\<close> and 0 are falsy.\<close>

definition limit_reached :: "int option \<Rightarrow> nat \<Rightarrow> bool" where
  "limit_reached max_repos count =
     (case max_repos of None \<Rightarrow> False | Some n \<Rightarrow> n \<noteq> 0 \<and> n \<le> int count)"

text \<open>
  The \<^verbatim>\<open>for\<close> loop over \<^verbatim>\<open>self.user.get_repos()\<close>. \<open>clock count\<close> is what
  \<^verbatim>\<open>datetime.now()\<close> reads while the repository numbered \<open>count\<close> is classified;
  \<open>failure\<close> is the exception that ends the enumeration early, if any.
\<close>

fun scan_loop ::
    "int option \<Rightarrow> (nat \<Rightarrow> int) \<Rightarrow> exn option \<Rightarrow> repo list \<Rightarrow> nat \<Rightarrow> scan_results
       \<Rightarrow> exn + (nat \<times> scan_results)" where
  "scan_loop max_repos clock failure [] count st =
     (case failure of None \<Rightarrow> Inr (count, st) | Some e \<Rightarrow> Inl e)"
| "scan_loop max_repos clock failure (r # rs) count st =
     (if limit_reached max_repos count then Inr (count, st)
      else case scan_repository (clock count) st r of
             Inl e \<Rightarrow> Inl e
           | Inr (result, st') \<Rightarrow> scan_loop max_repos clock failure rs (count + 1) st')"

definition scan_all_repositories ::
    "int option \<Rightarrow> (nat \<Rightarrow> int) \<Rightarrow> repo paginated \<Rightarrow> scan_results \<Rightarrow> exn + scan_results" where
  "scan_all_repositories max_repos clock repos st =
     (case scan_loop max_repos clock (snd repos) (fst repos) 0 st of
        Inl e \<Rightarrow> Inl e
      | Inr (count, st') \<Rightarrow> Inr (st'\<lparr>total_repos := count\<rparr>))"

section \<open>The platform scanner\<close>

subsection \<open>JSON values and the Python operations on them\<close>

text \<open>
  What the Notion client returns: parsed JSON. A dict is a list of bindings, the first
  binding of a key being the dict's.
\<close>

datatype json =
    JNull
  | JBool bool
  | JNum int
  | JStr string
  | JList "json list"
  | JDict "(string \<times> json) list"

text \<open>\<^verbatim>\<open>d.get(k, default)\<close>: only a dict has the method.\<close>

definition py_get :: "json \<Rightarrow> string \<Rightarrow> json \<Rightarrow> exn + json" where
  "py_get d k dflt =
     (case d of
        JDict kvs \<Rightarrow> (case map_of kvs k of None \<Rightarrow> Inr dflt | Some v \<Rightarrow> Inr v)
      | _ \<Rightarrow> Inl AttributeError)"

text \<open>\<^verbatim>\<open>d[k]\<close> with a string key: a missing key raises, and nothing but a dict takes one.\<close>

definition py_item :: "json \<Rightarrow> string \<Rightarrow> exn + json" where
  "py_item d k =
     (case d of
        JDict kvs \<Rightarrow> (case map_of kvs k of None \<Rightarrow> Inl KeyError | Some v \<Rightarrow> Inr v)
      | _ \<Rightarrow> Inl TypeError)"

text \<open>
  \<^verbatim>\<open>x[0]\<close>: the first element of a list, the first character of a string; a JSON dict
  has string keys only, so 0 is a missing key.
\<close>

definition py_first :: "json \<Rightarrow> exn + json" where
  "py_first x =
     (case x of
        JList xs \<Rightarrow> (case xs of [] \<Rightarrow> Inl IndexError | y # _ \<Rightarrow> Inr y)
      | JStr s \<Rightarrow> (case s of [] \<Rightarrow> Inl IndexError | c # _ \<Rightarrow> Inr (JStr [c]))
      | JDict kvs \<Rightarrow> Inl KeyError
      | _ \<Rightarrow> Inl TypeError)"

text \<open>\<^verbatim>\<open>for x in v\<close>: a list gives its elements, a dict its keys, a string its characters.\<close>

definition py_iter :: "json \<Rightarrow> exn + json list" where
  "py_iter v =
     (case v of
        JList xs \<Rightarrow> Inr xs
      | JDict kvs \<Rightarrow> Inr (map (\<lambda>kv. JStr (fst kv)) kvs)
      | JStr s \<Rightarrow> Inr (map (\<lambda>c. JStr [c]) s)
      | _ \<Rightarrow> Inl TypeError)"

text \<open>A loop body that may raise, run over a list: the first exception ends the loop.\<close>

fun map_exn :: "('a \<Rightarrow> exn + 'b) \<Rightarrow> 'a list \<Rightarrow> exn + 'b list" where
  "map_exn f [] = Inr []"
| "map_exn f (x # xs) =
     (case f x of
        Inl e \<Rightarrow> Inl e
      | Inr y \<Rightarrow> (case map_exn f xs of Inl e \<Rightarrow> Inl e | Inr ys \<Rightarrow> Inr (y # ys)))"

subsection \<open>\<^verbatim>\<open>scan_notion\<close>\<close>

record notion_page =
  page_id :: json
  title :: json
  url :: json
  created_time :: json
  last_edited_time :: json

record notion_database =
  db_id :: json
  title :: json
  url :: json

text \<open>
  \<^verbatim>\<open>page.get("properties", {}).get("title", {}).get("title", [{}])[0].get("plain_text", "Untitled")\<close>
\<close>

definition page_title :: "json \<Rightarrow> exn + json" where
  "page_title page =
     (case py_get page ''properties'' (JDict []) of Inl e \<Rightarrow> Inl e | Inr props \<Rightarrow>
      (case py_get props ''title'' (JDict []) of Inl e \<Rightarrow> Inl e | Inr prop \<Rightarrow>
      (case py_get prop ''title'' (JList [JDict []]) of Inl e \<Rightarrow> Inl e | Inr parts \<Rightarrow>
      (case py_first parts of Inl e \<Rightarrow> Inl e | Inr part \<Rightarrow>
         py_get part ''plain_text'' (JStr ''Untitled'')))))"

text \<open>The dict appended for one page; the values are evaluated in the order of the keys.\<close>

definition extract_page :: "json \<Rightarrow> exn + notion_page" where
  "extract_page page =
     (case py_item page ''id'' of Inl e \<Rightarrow> Inl e | Inr i \<Rightarrow>
      (case page_title page of Inl e \<Rightarrow> Inl e | Inr t \<Rightarrow>
      (case py_get page ''url'' JNull of Inl e \<Rightarrow> Inl e | Inr u \<Rightarrow>
      (case py_get page ''created_time'' JNull of Inl e \<Rightarrow> Inl e | Inr c \<Rightarrow>
      (case py_get page ''last_edited_time'' JNull of Inl e \<Rightarrow> Inl e | Inr l \<Rightarrow>
         Inr \<lparr>page_id = i, title = t, url = u, created_time = c,
              last_edited_time = l\<rparr>)))))"

text \<open>\<^verbatim>\<open>db.get("title", [{}])[0].get("plain_text", "Untitled")\<close>\<close>

definition database_title :: "json \<Rightarrow> exn + json" where
  "database_title db =
     (case py_get db ''title'' (JList [JDict []]) of Inl e \<Rightarrow> Inl e | Inr parts \<Rightarrow>
      (case py_first parts of Inl e \<Rightarrow> Inl e | Inr part \<Rightarrow>
         py_get part ''plain_text'' (JStr ''Untitled'')))"

definition extract_database :: "json \<Rightarrow> exn + notion_database" where
  "extract_database db =
     (case py_item db ''id'' of Inl e \<Rightarrow> Inl e | Inr i \<Rightarrow>
      (case database_title db of Inl e \<Rightarrow> Inl e | Inr t \<Rightarrow>
      (case py_get db ''url'' JNull of Inl e \<Rightarrow> Inl e | Inr u \<Rightarrow>
         Inr \<lparr>db_id = i, title = t, url = u\<rparr>)))"

text \<open>\<^verbatim>\<open>results.get("results", [])\<close>, the sequence both loops run over.\<close>

definition search_results :: "json \<Rightarrow> exn + json list" where
  "search_results response =
     (case py_get response ''results'' (JList []) of
        Inl e \<Rightarrow> Inl e
      | Inr v \<Rightarrow> py_iter v)"

definition collect_pages :: "json \<Rightarrow> exn + notion_page list" where
  "collect_pages response =
     (case search_results response of Inl e \<Rightarrow> Inl e | Inr raw \<Rightarrow> map_exn extract_page raw)"

definition collect_databases :: "json \<Rightarrow> exn + notion_database list" where
  "collect_databases response =
     (case search_results response of
        Inl e \<Rightarrow> Inl e
      | Inr raw \<Rightarrow> map_exn extract_database raw)"

text \<open>
  What the Notion side answers during one scan: whether \<^verbatim>\<open>notion_client\<close> can be
  imported, and the outcome of the two \<^verbatim>\<open>notion.search\<close> calls.
\<close>

record notion_api =
  client_installed :: bool
  search_page :: "exn + json"
  search_database :: "exn + json"

text \<open>The dict returned with \<^verbatim>\<open>"status": "success"\<close>.\<close>

record notion_summary =
  total_pages :: nat
  total_databases :: nat
  pages :: "notion_page list"
  databases :: "notion_database list"

text \<open>The dict a platform scan returns, by its \<^verbatim>\<open>"status"\<close>.\<close>

datatype platform_result =
    Success notion_summary
  | Skipped string
  | Error exn
  | Not_implemented

definition status :: "platform_result \<Rightarrow> string" where
  "status res =
     (case res of
        Success s \<Rightarrow> ''success''
      | Skipped reason \<Rightarrow> ''skipped''
      | Error e \<Rightarrow> ''error''
      | Not_implemented \<Rightarrow> ''not_implemented'')"

text \<open>The \<^verbatim>\<open>try\<close> block of \<^verbatim>\<open>scan_notion\<close>.\<close>

definition scan_notion_body :: "notion_api \<Rightarrow> exn + notion_summary" where
  "scan_notion_body api =
     (if \<not> client_installed api then Inl ImportError
      else case search_page api of Inl e \<Rightarrow> Inl e | Inr results \<Rightarrow>
      (case collect_pages results of Inl e \<Rightarrow> Inl e | Inr ps \<Rightarrow>
      (case search_database api of Inl e \<Rightarrow> Inl e | Inr db_results \<Rightarrow>
      (case collect_databases db_results of Inl e \<Rightarrow> Inl e | Inr ds \<Rightarrow>
         Inr \<lparr>total_pages = length ps,
              total_databases = length ds,
              pages = take 50 ps,
              databases = ds\<rparr>))))"

text \<open>
  \<^verbatim>\<open>scan_notion\<close>: \<^verbatim>\<open>except ImportError\<close> comes first, \<^verbatim>\<open>except Exception\<close> takes
  the rest. The error message \<^verbatim>\<open>str(e)\<close> is kept as the exception.
\<close>

definition scan_notion :: "string \<Rightarrow> notion_api \<Rightarrow> platform_result" where
  "scan_notion api_key api =
     (case scan_notion_body api of
        Inr s \<Rightarrow> Success s
      | Inl e \<Rightarrow>
          (if e = ImportError then Skipped ''notion-client not installed'' else Error e))"

definition scan_linear :: "string \<Rightarrow> platform_result" where
  "scan_linear api_key = Not_implemented"

definition scan_jira :: "string \<Rightarrow> platform_result" where
  "scan_jira api_token = Not_implemented"

subsection \<open>\<^verbatim>\<open>scan_all_platforms\<close>\<close>

text \<open>\<^verbatim>\<open>self.scan_results\<close> of a \<^verbatim>\<open>PlatformScanner\<close>.\<close>

record platform_scan_results =
  scan_timestamp :: datetime
  scanner_version :: string
  platforms :: "string \<rightharpoonup> platform_result"

definition init_platform_scan_results :: "datetime \<Rightarrow> platform_scan_results" where
  "init_platform_scan_results utcnow =
     \<lparr>scan_timestamp = utcnow, scanner_version = ''1.0.0'', platforms = Map.empty\<rparr>"

text \<open>
  \<^verbatim>\<open>key = os.environ.get(var)\<close> followed by \<^verbatim>\<open>if key:\<close>: the key when the variable is
  set to a non-empty string.
\<close>

definition credential :: "(string \<rightharpoonup> string) \<Rightarrow> string \<Rightarrow> string option" where
  "credential environ var =
     (case environ var of None \<Rightarrow> None | Some k \<Rightarrow> (if k = [] then None else Some k))"

definition scan_all_platforms ::
    "(string \<rightharpoonup> string) \<Rightarrow> notion_api \<Rightarrow> platform_scan_results \<Rightarrow> platform_scan_results" where
  "scan_all_platforms environ api st =
     (let st1 = (case credential environ ''NOTION_API_KEY'' of
                   Some notion_key \<Rightarrow>
                     st\<lparr>platforms := (platforms st)(''notion'' \<mapsto> scan_notion notion_key api)\<rparr>
                 | None \<Rightarrow> st);
          st2 = (case credential environ ''LINEAR_API_KEY'' of
                   Some linear_key \<Rightarrow>
                     st1\<lparr>platforms := (platforms st1)(''linear'' \<mapsto> scan_linear linear_key)\<rparr>
                 | None \<Rightarrow> st1);
          st3 = (case credential environ ''JIRA_API_TOKEN'' of
                   Some jira_token \<Rightarrow>
                     st2\<lparr>platforms := (platforms st2)(''jira'' \<mapsto> scan_jira jira_token)\<rparr>
                 | None \<Rightarrow> st2)
      in st3)"

section \<open>What a scan leaves in the results\<close>

text \<open>
  The data of the repositories whose scan returns a dict, in the order of the
  enumeration; \<open>k\<close> is the number of the first repository of the list.
\<close>

fun scanned :: "(nat \<Rightarrow> int) \<Rightarrow> nat \<Rightarrow> repo list \<Rightarrow> repo_data list" where
  "scanned clock k [] = []"
| "scanned clock k (r # rs) =
     (case build_repo_data (clock k) r of
        Inr d \<Rightarrow> d # scanned clock (Suc k) rs
      | Inl e \<Rightarrow> scanned clock (Suc k) rs)"

text \<open>Every repository of the list whose scan fails fails with a \<^verbatim>\<open>GithubException\<close>.\<close>

fun contained :: "(nat \<Rightarrow> int) \<Rightarrow> nat \<Rightarrow> repo list \<Rightarrow> bool" where
  "contained clock k [] = True"
| "contained clock k (r # rs) =
     ((case build_repo_data (clock k) r of Inl e \<Rightarrow> e = GithubException | Inr d \<Rightarrow> True)
      \<and> contained clock (Suc k) rs)"

text \<open>The names filed under one classification.\<close>

definition names_of :: "classification \<Rightarrow> repo_data list \<Rightarrow> string list" where
  "names_of c ds = map repo_data.name (filter (\<lambda>d. classification d = c) ds)"

text \<open>\<^verbatim>\<open>d.get(k, default)\<close> on the bindings of a dict.\<close>

definition lookup_default :: "(string \<times> json) list \<Rightarrow> string \<Rightarrow> json \<Rightarrow> json" where
  "lookup_default kvs k dflt = (case map_of kvs k of None \<Rightarrow> dflt | Some v \<Rightarrow> v)"

section \<open>Sample inputs\<close>

text \<open>
  A small repository outside the allow-list: not a fork, 1 KB, no open issues, one
  commit at time 0, every call succeeding.
\<close>

definition sample_repo :: repo where
  "sample_repo =
     \<lparr>repo.repo_id = 1, repo.name = ''demo'', repo.full_name = ''Trancendos/demo'',
      repo.description = None, repo.html_url = ''https://github.com/Trancendos/demo'',
      is_private = False, repo.fork = False, repo.archived = False, repo.disabled = False,
      repo.created_at = Naive 0, repo.updated_at = Naive 0, repo.pushed_at = None,
      repo_size = 1, repo.default_branch = ''main'', stargazers_count = 0, forks_count = 0,
      watchers_count = 0, open_issues_count = 0, repo.has_issues = True,
      repo.has_projects = False, repo.has_wiki = False, repo.has_pages = False,
      repo.has_downloads = False, repo.license = None,
      get_commits = Inr [\<lparr>author_date = Naive 0\<rparr>], get_workflows = ([], None),
      get_languages = Inr [], get_branches = ([''main''], None), get_tags = ([], None),
      get_topics = Inr []\<rparr>"

text \<open>One day in microseconds.\<close>

definition day :: int where
  "day = 86400000000"

text \<open>A page that carries nothing but its id, and a workspace of \<open>n\<close> such pages.\<close>

definition sample_page :: json where
  "sample_page = JDict [(''id'', JStr ''page-1'')]"

definition sample_api :: "nat \<Rightarrow> notion_api" where
  "sample_api n =
     \<lparr>client_installed = True,
      search_page = Inr (JDict [(''results'', JList (replicate n sample_page))]),
      search_database = Inr (JDict [(''results'', JList [])])\<rparr>"

text \<open>A database with an id and a title, and a workspace of \<open>n\<close> pages and \<open>m\<close> databases.\<close>

definition sample_database :: json where
  "sample_database =
     JDict [(''id'', JStr ''db-1''), (''title'', JList [JDict [(''plain_text'', JStr ''Tasks'')]])]"

definition sample_workspace :: "nat \<Rightarrow> nat \<Rightarrow> notion_api" where
  "sample_workspace n m =
     \<lparr>client_installed = True,
      search_page = Inr (JDict [(''results'', JList (replicate n sample_page))]),
      search_database = Inr (JDict [(''results'', JList (replicate m sample_database))])\<rparr>"

section \<open>Properties of the classification\<close>

text \<open>
  Claim C1. \<^verbatim>\<open>classify_repository\<close> evaluates its rules in the fixed order CORE
  allow-list, ACTIVE (recent commit or more than 5 open issues), ARCHIVE (stale and not
  empty), DEPRECATE (fork or empty), CONSOLIDATE otherwise, and returns the label of the
  first rule that matches: it agrees with the first-match reading of the rule table.
  In particular a repository of the allow-list is CORE whatever its other fields are,
  and a fork outside the allow-list whose last commit is 5 days old is ACTIVE.
\<close>

theorem classify_repository_first_match:
  "classify_repository now r = first_match policy_rules (days_since_commit now r) r
   \<and> (repo.name r \<in> set core_repos \<longrightarrow> classify_repository now r = CORE)
   \<and> (repo.name r \<notin> set core_repos \<and> repo.fork r \<and> days_since_commit now r = 5
        \<longrightarrow> classify_repository now r = ACTIVE)"
  by (simp add: classify_repository_def policy_rules_def Let_def)

text \<open>
  Claim C1, at two repositories: a forked, empty repository named \<^verbatim>\<open>Trancendos\<close>
  whose commits cannot be fetched is CORE, and the sample repository as a fork, five
  days after its commit, is ACTIVE.
\<close>

theorem classify_repository_first_match_witness:
  "repo.name (sample_repo\<lparr>repo.name := ''Trancendos'', repo.fork := True, repo_size := 0,
       get_commits := Inl GithubException\<rparr>) \<in> set core_repos
   \<and> classify_repository 0 (sample_repo\<lparr>repo.name := ''Trancendos'', repo.fork := True,
       repo_size := 0, get_commits := Inl GithubException\<rparr>) = CORE
   \<and> repo.name (sample_repo\<lparr>repo.fork := True\<rparr>) \<notin> set core_repos
   \<and> repo.fork (sample_repo\<lparr>repo.fork := True\<rparr>)
   \<and> days_since_commit (5 * day) (sample_repo\<lparr>repo.fork := True\<rparr>) = 5
   \<and> classify_repository (5 * day) (sample_repo\<lparr>repo.fork := True\<rparr>) = ACTIVE"
  using classify_repository_first_match
          [of 0 "sample_repo\<lparr>repo.name := ''Trancendos'', repo.fork := True, repo_size := 0,
             get_commits := Inl GithubException\<rparr>"]
        classify_repository_first_match [of "5 * day" "sample_repo\<lparr>repo.fork := True\<rparr>"]
  by (simp add: sample_repo_def core_repos_def policy_rules_def days_since_commit_def
      latest_commit_def sub_datetime_def timedelta_days_def day_def)

text \<open>
  Claim C2, as stated, fails: the classification is not a function of the repository
  record alone. \<^verbatim>\<open>classify_repository\<close> reads the clock, and the same repository is
  ACTIVE on the day of its last commit and CONSOLIDATE forty days later.
\<close>

theorem classify_repository_clock_counterexample:
  "classify_repository 0 sample_repo \<noteq> classify_repository (40 * day) sample_repo"
  by (simp add: classify_repository_def Let_def sample_repo_def core_repos_def
      days_since_commit_def latest_commit_def sub_datetime_def timedelta_days_def day_def)

text \<open>
  Claim C2, amended. The classification is determined by the name, the open-issue
  count, the size, the fork flag and the number of days since the last commit, which
  the code computes from the fetched commits and the clock: two classifications that
  agree on these five values give the same label, whatever the other fields, the clock
  readings and the commit dates are.
\<close>

theorem classify_repository_determined:
  "repo.name r = repo.name r' \<Longrightarrow> open_issues_count r = open_issues_count r' \<Longrightarrow>
   repo_size r = repo_size r' \<Longrightarrow> repo.fork r = repo.fork r' \<Longrightarrow>
   days_since_commit now r = days_since_commit now' r' \<Longrightarrow>
   classify_repository now r = classify_repository now' r'"
  by (simp add: classify_repository_def Let_def)

text \<open>
  Claim C2, amended, at two records that differ in their stars and commit dates and
  are classified at different times, both on the day of the last commit.
\<close>

theorem classify_repository_determined_witness:
  "repo.name sample_repo
     = repo.name (sample_repo\<lparr>stargazers_count := 100,
                    get_commits := Inr [\<lparr>author_date = Naive (10 * day)\<rparr>]\<rparr>)
   \<and> days_since_commit 0 sample_repo
     = days_since_commit (10 * day + 5)
         (sample_repo\<lparr>stargazers_count := 100,
            get_commits := Inr [\<lparr>author_date = Naive (10 * day)\<rparr>]\<rparr>)
   \<and> classify_repository 0 sample_repo
     = classify_repository (10 * day + 5)
         (sample_repo\<lparr>stargazers_count := 100,
            get_commits := Inr [\<lparr>author_date = Naive (10 * day)\<rparr>]\<rparr>)"
  using classify_repository_determined
          [of sample_repo
              "sample_repo\<lparr>stargazers_count := 100,
                 get_commits := Inr [\<lparr>author_date = Naive (10 * day)\<rparr>]\<rparr>"
              0 "10 * day + 5"]
  by (simp add: sample_repo_def days_since_commit_def latest_commit_def sub_datetime_def
      timedelta_days_def day_def)

text \<open>
  Claim C7. When no date of a last commit can be retrieved (the fetch raises, there is
  no commit, or the date cannot be subtracted from the clock), the days since the last
  commit are 999, not 0: beyond both thresholds. Such a repository is ACTIVE exactly
  when it is outside the allow-list and has more than 5 open issues, so never through
  the recency condition.
\<close>

theorem unknown_activity_not_recent:
  "activity_unknown r \<Longrightarrow>
     days_since_commit now r = 999
     \<and> (classify_repository now r = ACTIVE
          \<longleftrightarrow> repo.name r \<notin> set core_repos \<and> open_issues_count r > 5)"
  by (auto simp: classify_repository_def Let_def activity_unknown_def days_since_commit_def
      sub_datetime_def split: sum.splits option.splits datetime.splits)

text \<open>
  Claim C7, at the sample repository with a failing commits fetch: 999 days, and not
  ACTIVE with no open issue, whatever the clock reads.
\<close>

theorem unknown_activity_not_recent_witness:
  "activity_unknown (sample_repo\<lparr>get_commits := Inl GithubException\<rparr>)
   \<and> days_since_commit 0 (sample_repo\<lparr>get_commits := Inl GithubException\<rparr>) = 999
   \<and> classify_repository 0 (sample_repo\<lparr>get_commits := Inl GithubException\<rparr>) \<noteq> ACTIVE"
  using unknown_activity_not_recent [of "sample_repo\<lparr>get_commits := Inl GithubException\<rparr>" 0]
  by (simp add: activity_unknown_def sample_repo_def)

text \<open>
  Claim C8. The ACTIVE thresholds are strict. Outside the allow-list, a repository
  whose last commit is exactly 30 days old is not ACTIVE unless it has more than 5
  open issues, and a repository with 6 open issues is ACTIVE.
\<close>

theorem active_thresholds_strict:
  "repo.name r \<notin> set core_repos \<Longrightarrow>
     (days_since_commit now r = 30 \<and> open_issues_count r \<le> 5
        \<longrightarrow> classify_repository now r \<noteq> ACTIVE)
     \<and> (open_issues_count r = 6 \<longrightarrow> classify_repository now r = ACTIVE)"
  by (auto simp: classify_repository_def Let_def)

text \<open>
  Claim C8, at the sample repository thirty days after its commit with 5 open issues,
  and with 6 open issues and no retrievable commit.
\<close>

theorem active_thresholds_strict_witness:
  "repo.name (sample_repo\<lparr>open_issues_count := 5\<rparr>) \<notin> set core_repos
   \<and> days_since_commit (30 * day) (sample_repo\<lparr>open_issues_count := 5\<rparr>) = 30
   \<and> open_issues_count (sample_repo\<lparr>open_issues_count := 5\<rparr>) \<le> 5
   \<and> classify_repository (30 * day) (sample_repo\<lparr>open_issues_count := 5\<rparr>) \<noteq> ACTIVE
   \<and> repo.name (sample_repo\<lparr>open_issues_count := 6, get_commits := Inr []\<rparr>)
       \<notin> set core_repos
   \<and> open_issues_count (sample_repo\<lparr>open_issues_count := 6, get_commits := Inr []\<rparr>) = 6
   \<and> classify_repository 0 (sample_repo\<lparr>open_issues_count := 6, get_commits := Inr []\<rparr>)
       = ACTIVE"
  using active_thresholds_strict [of "sample_repo\<lparr>open_issues_count := 5\<rparr>" "30 * day"]
        active_thresholds_strict
          [of "sample_repo\<lparr>open_issues_count := 6, get_commits := Inr []\<rparr>" 0]
  by (simp add: sample_repo_def core_repos_def days_since_commit_def latest_commit_def
      sub_datetime_def timedelta_days_def day_def)

section \<open>Properties of the repository scan\<close>

lemma build_repo_data_name:
  "build_repo_data now r = Inr d \<Longrightarrow> repo_data.name d = repo.name r"
  by (auto simp: build_repo_data_def Let_def split: sum.splits)

text \<open>
  Without a limit and without a failure of the enumeration, the loop visits every
  repository: a \<^verbatim>\<open>GithubException\<close> skips one repository and nothing else.
\<close>

lemma scan_loop_unlimited:
  "contained clock k rs \<Longrightarrow>
   scan_loop None clock None rs k st =
     Inr (k + length rs,
          st\<lparr>repositories := repositories st @ scanned clock k rs,
             classifications :=
               (\<lambda>c. classifications st c @ names_of c (scanned clock k rs))\<rparr>)"
proof (induction rs arbitrary: k st)
  case Nil
  show ?case by (simp add: names_of_def)
next
  case (Cons r rs)
  from Cons.prems have rest: "contained clock (Suc k) rs" by simp
  show ?case
  proof (cases "build_repo_data (clock k) r")
    case (Inl e)
    with Cons.prems have "e = GithubException" by simp
    with Inl show ?thesis
      using Cons.IH [OF rest] by (simp add: scan_repository_def limit_reached_def)
  next
    case (Inr d)
    have n: "repo_data.name d = repo.name r" using Inr by (rule build_repo_data_name)
    show ?thesis
      using Inr Cons.IH [OF rest]
      by (simp add: scan_repository_def limit_reached_def names_of_def n fun_eq_iff)
  qed
qed

text \<open>The limit 0 is falsy in \<^verbatim>\<open>max_repos and count >= max_repos\<close>: it never stops the loop.\<close>

lemma scan_loop_limit_zero:
  "scan_loop (Some 0) clock failure rs k st = scan_loop None clock failure rs k st"
  by (induction rs arbitrary: k st) (auto simp: limit_reached_def split: sum.splits)

text \<open>
  The handler of \<^verbatim>\<open>scan_repository\<close> names \<^verbatim>\<open>GithubException\<close> only: an exception of
  another class leaves \<^verbatim>\<open>scan_repository\<close>, and with it the scan, when it is raised at
  the first repository visited.
\<close>

lemma other_exception_propagates:
  "build_repo_data (clock 0) r = Inl e \<Longrightarrow> e \<noteq> GithubException \<Longrightarrow>
   scan_repository (clock 0) st r = Inl e
   \<and> scan_all_repositories None clock (r # rs, failure) st = Inl e"
  by (simp add: scan_repository_def scan_all_repositories_def limit_reached_def)

text \<open>
  Claim C4, as stated, fails: a suppressed failure is not recorded in the results. A
  scan of one repository whose languages call raises \<^verbatim>\<open>GithubException\<close> returns the
  initial results with \<^verbatim>\<open>total_repos\<close> set to 1: no repository entry, no name under
  any classification, nothing that tells which repository failed or why.
\<close>

theorem failure_not_recorded_counterexample:
  "scan_all_repositories None (\<lambda>k. 0)
        ([sample_repo\<lparr>get_languages := Inl GithubException\<rparr>], None)
        (init_scan_results (Naive 0))
   = Inr ((init_scan_results (Naive 0))\<lparr>total_repos := 1\<rparr>)"
  by (simp add: scan_all_repositories_def scan_repository_def build_repo_data_def
      limit_reached_def sample_repo_def)

text \<open>
  Claim C4, amended. A \<^verbatim>\<open>GithubException\<close> raised while one repository is scanned
  does not abort the scan: when every failing repository fails with that exception,
  the scan of the whole enumeration returns, the repositories scanned without failure
  are appended in order, each filed under its classification, and \<^verbatim>\<open>total_repos\<close>
  counts every repository visited, the failed ones included. A failed repository
  leaves no entry of its own.
\<close>

theorem github_failure_does_not_abort_scan:
  "contained clock 0 rs \<Longrightarrow>
   scan_all_repositories None clock (rs, None) st =
     Inr (st\<lparr>repositories := repositories st @ scanned clock 0 rs,
             classifications :=
               (\<lambda>c. classifications st c @ names_of c (scanned clock 0 rs)),
             total_repos := length rs\<rparr>)"
  by (simp add: scan_all_repositories_def scan_loop_unlimited)

text \<open>
  Claim C4, amended, at a scan of two repositories of which the first fails: the
  second is scanned and recorded, and both are counted.
\<close>

theorem github_failure_does_not_abort_scan_witness:
  "contained (\<lambda>k. 0) 0 [sample_repo\<lparr>get_languages := Inl GithubException\<rparr>, sample_repo]
   \<and> map_sum (\<lambda>e. e) (\<lambda>st. (total_repos st, map repo_data.name (repositories st)))
       (scan_all_repositories None (\<lambda>k. 0)
          ([sample_repo\<lparr>get_languages := Inl GithubException\<rparr>, sample_repo], None)
          (init_scan_results (Naive 0)))
     = Inr (2, [''demo''])"
  using github_failure_does_not_abort_scan
          [of "\<lambda>k. 0" "[sample_repo\<lparr>get_languages := Inl GithubException\<rparr>, sample_repo]"
              "init_scan_results (Naive 0)"]
  by (simp add: build_repo_data_def sample_repo_def init_scan_results_def iterate_all_def
      slice_upto_def collect_workflows_def Let_def)

text \<open>
  Claim C5, as stated, fails for the branches and tags: only the workflows loop has a
  handler of its own. A repository whose branches call raises \<^verbatim>\<open>GithubException\<close>
  after delivering a branch gives \<^verbatim>\<open>None\<close> and leaves the results untouched: it is
  neither classified nor listed.
\<close>

theorem branches_failure_drops_repository_counterexample:
  "scan_repository 0 (init_scan_results (Naive 0))
     (sample_repo\<lparr>get_branches := ([''main''], Some GithubException)\<rparr>)
   = Inr (None, init_scan_results (Naive 0))"
  by (simp add: scan_repository_def build_repo_data_def sample_repo_def iterate_all_def)

text \<open>
  Claim C5, amended. A repository whose workflows fetch fails (with any exception,
  after any number of workflows) while its languages, branches, tags and topics are
  retrieved is still scanned: it is classified by \<^verbatim>\<open>classify_repository\<close>, carries the
  workflows delivered before the failure, and is appended to the results, which are
  otherwise unchanged.
\<close>

theorem workflows_failure_still_classified:
  "get_workflows r = (ws, Some e) \<Longrightarrow> get_languages r = Inr langs \<Longrightarrow>
   iterate_all (get_branches r) = Inr brs \<Longrightarrow> slice_upto 10 (get_tags r) = Inr tgs \<Longrightarrow>
   get_topics r = Inr tps \<Longrightarrow>
   \<exists>d. scan_repository now st r =
         Inr (Some d,
              st\<lparr>repositories := repositories st @ [d],
                 classifications := (classifications st)
                   (classify_repository now r :=
                      classifications st (classify_repository now r) @ [repo.name r])\<rparr>)
       \<and> classification d = classify_repository now r
       \<and> workflows d = ws \<and> branches d = brs \<and> tags d = tgs"
  by (simp add: scan_repository_def build_repo_data_def collect_workflows_def Let_def)

text \<open>
  Claim C5, amended, at the sample repository whose workflows fetch delivers one
  workflow and then fails with a connection error.
\<close>

theorem workflows_failure_still_classified_witness:
  "get_workflows (sample_repo\<lparr>get_workflows :=
       ([\<lparr>workflow_name = ''CI'', workflow_path = ''.github/workflows/ci.yml'',
          workflow_state = ''active''\<rparr>], Some ConnectionError)\<rparr>)
     = ([\<lparr>workflow_name = ''CI'', workflow_path = ''.github/workflows/ci.yml'',
          workflow_state = ''active''\<rparr>], Some ConnectionError)
   \<and> map_sum (\<lambda>e. e)
       (\<lambda>res. (map_option (\<lambda>d. (classification d, map workflow_name (workflows d)))
                 (fst res),
               length (repositories (snd res))))
       (scan_repository 0 (init_scan_results (Naive 0))
          (sample_repo\<lparr>get_workflows :=
             ([\<lparr>workflow_name = ''CI'', workflow_path = ''.github/workflows/ci.yml'',
                workflow_state = ''active''\<rparr>], Some ConnectionError)\<rparr>))
     = Inr (Some (ACTIVE, [''CI'']), 1)"
  using workflows_failure_still_classified
          [of "sample_repo\<lparr>get_workflows :=
                 ([\<lparr>workflow_name = ''CI'', workflow_path = ''.github/workflows/ci.yml'',
                    workflow_state = ''active''\<rparr>], Some ConnectionError)\<rparr>"
              "[\<lparr>workflow_name = ''CI'', workflow_path = ''.github/workflows/ci.yml'',
                 workflow_state = ''active''\<rparr>]"
              ConnectionError "[]" "[''main'']" "[]" "[]" 0 "init_scan_results (Naive 0)"]
  by (auto simp: sample_repo_def iterate_all_def slice_upto_def init_scan_results_def
      classify_repository_def Let_def core_repos_def days_since_commit_def
      latest_commit_def sub_datetime_def timedelta_days_def)

text \<open>
  Claim C9 does not hold of the code at the limit 0. The test
  \<^verbatim>\<open>max_repos and count >= max_repos\<close> treats 0 as no limit, so a scan with
  \<^verbatim>\<open>max_repos = 0\<close> is the unbounded scan: over two repositories it scans both.
\<close>

theorem limit_zero_is_unbounded:
  "scan_all_repositories (Some 0) clock repos st = scan_all_repositories None clock repos st
   \<and> map_sum (\<lambda>e. e) (\<lambda>st'. (total_repos st', map repo_data.name (repositories st')))
       (scan_all_repositories (Some 0) (\<lambda>k. 0)
          ([sample_repo, sample_repo\<lparr>repo.name := ''other''\<rparr>], None)
          (init_scan_results (Naive 0)))
     = Inr (2, [''demo'', ''other''])"
proof (rule conjI)
  show "scan_all_repositories (Some 0) clock repos st
          = scan_all_repositories None clock repos st"
    by (simp add: scan_all_repositories_def scan_loop_limit_zero)
next
  show "map_sum (\<lambda>e. e) (\<lambda>st'. (total_repos st', map repo_data.name (repositories st')))
       (scan_all_repositories (Some 0) (\<lambda>k. 0)
          ([sample_repo, sample_repo\<lparr>repo.name := ''other''\<rparr>], None)
          (init_scan_results (Naive 0)))
     = Inr (2, [''demo'', ''other''])"
    by (simp add: scan_all_repositories_def scan_repository_def build_repo_data_def
        limit_reached_def sample_repo_def init_scan_results_def iterate_all_def
        slice_upto_def collect_workflows_def Let_def)
qed

section \<open>Properties of the platform scan\<close>

lemma map_exn_length: "map_exn f xs = Inr ys \<Longrightarrow> length ys = length xs"
  by (induction xs arbitrary: ys) (auto split: sum.splits)

text \<open>
  Claim C3, as stated, fails: the page extractor raises on a record without an id.
  The id is read with \<^verbatim>\<open>page["id"]\<close>, not with \<^verbatim>\<open>get\<close>, so a page that has a url
  but no id raises \<^verbatim>\<open>KeyError\<close>, and the scan that meets such a page returns the
  status error with no page at all instead of a record with an absent id.
\<close>

theorem extract_page_missing_id_counterexample:
  "extract_page (JDict [(''url'', JStr ''https://notion.so/p'')]) = Inl KeyError
   \<and> scan_notion ''secret''
        \<lparr>client_installed = True,
         search_page = Inr (JDict [(''results'',
                         JList [JDict [(''url'', JStr ''https://notion.so/p'')]])]),
         search_database = Inr (JDict [(''results'', JList [])])\<rparr>
       = Error KeyError"
  by (simp add: extract_page_def py_item_def scan_notion_def scan_notion_body_def
      collect_pages_def search_results_def py_get_def py_iter_def)

text \<open>
  Claim C3, amended. For every raw page record that is a dict with an id, whose
  \<^verbatim>\<open>properties\<close> and \<^verbatim>\<open>properties.title\<close> are dicts or missing, and whose title list
  is missing or starts with a dict, the extractor returns a record: a missing
  \<^verbatim>\<open>plain_text\<close> (or a missing level above it) gives the title \<^verbatim>\<open>Untitled\<close>, and a
  missing url, created time or last edited time gives \<^verbatim>\<open>None\<close>. For every
  repository, \<^verbatim>\<open>scan_repository\<close> never raises a \<^verbatim>\<open>GithubException\<close>.
\<close>

theorem extract_page_defaults:
  "(map_of kvs ''id'' = Some i \<and>
    lookup_default kvs ''properties'' (JDict []) = JDict ps \<and>
    lookup_default ps ''title'' (JDict []) = JDict ts \<and>
    lookup_default ts ''title'' (JList [JDict []]) = JList (JDict d # rest)
    \<longrightarrow> extract_page (JDict kvs) =
          Inr \<lparr>page_id = i,
               title = lookup_default d ''plain_text'' (JStr ''Untitled''),
               url = lookup_default kvs ''url'' JNull,
               created_time = lookup_default kvs ''created_time'' JNull,
               last_edited_time = lookup_default kvs ''last_edited_time'' JNull\<rparr>)
   \<and> scan_repository now st r \<noteq> Inl GithubException"
  by (auto simp: extract_page_def page_title_def py_item_def py_get_def py_first_def
      lookup_default_def scan_repository_def split: option.splits sum.splits)

text \<open>
  Claim C3, amended, at a page with an id and a creation time and nothing else: the
  title is \<^verbatim>\<open>Untitled\<close>, the url and the last edited time are \<^verbatim>\<open>None\<close>.
\<close>

theorem extract_page_defaults_witness:
  "map_of [(''id'', JStr ''page-1''), (''created_time'', JStr ''2024-01-01'')] ''id''
     = Some (JStr ''page-1'')
   \<and> lookup_default [(''id'', JStr ''page-1''), (''created_time'', JStr ''2024-01-01'')]
        ''properties'' (JDict []) = JDict []
   \<and> lookup_default [] ''title'' (JDict []) = JDict []
   \<and> lookup_default [] ''title'' (JList [JDict []]) = JList (JDict [] # [])
   \<and> extract_page (JDict [(''id'', JStr ''page-1''), (''created_time'', JStr ''2024-01-01'')])
     = Inr \<lparr>page_id = JStr ''page-1'', title = JStr ''Untitled'', url = JNull,
            created_time = JStr ''2024-01-01'', last_edited_time = JNull\<rparr>
   \<and> scan_repository 0 (init_scan_results (Naive 0))
        (sample_repo\<lparr>get_tags := ([], Some GithubException)\<rparr>) \<noteq> Inl GithubException"
  using extract_page_defaults
          [of "[(''id'', JStr ''page-1''), (''created_time'', JStr ''2024-01-01'')]"
              "JStr ''page-1''" "[]" "[]" "[]" "[]"
              0 "init_scan_results (Naive 0)"
              "sample_repo\<lparr>get_tags := ([], Some GithubException)\<rparr>"]
  by (simp add: lookup_default_def)

text \<open>
  Claim C6, as stated, fails: a platform whose credential is absent gets no entry.
  With only the Linear key in the environment, the results have no entry for Notion:
  \<^verbatim>\<open>scan_all_platforms\<close> prints a warning and records nothing.
\<close>

theorem missing_credential_counterexample:
  "platforms (scan_all_platforms (map_of [(''LINEAR_API_KEY'', ''lin-key'')]) (sample_api 0)
      (init_platform_scan_results (Naive 0))) ''notion'' = None"
  by (simp add: scan_all_platforms_def credential_def init_platform_scan_results_def Let_def)

text \<open>
  Claim C6, amended. The results of a platform scan hold an entry for exactly the
  platforms among notion, linear and jira whose environment variable is set to a
  non-empty string, and that entry is what the platform's scan returned for that key;
  a platform whose variable is unset or empty has no entry, so a consumer tells a
  skipped platform by the missing key.
\<close>

theorem platforms_recorded_iff_credential:
  "platforms (scan_all_platforms environ api (init_platform_scan_results utcnow)) p =
     (if p = ''jira'' then
        (case environ ''JIRA_API_TOKEN'' of
           None \<Rightarrow> None
         | Some k \<Rightarrow> (if k = [] then None else Some (scan_jira k)))
      else if p = ''linear'' then
        (case environ ''LINEAR_API_KEY'' of
           None \<Rightarrow> None
         | Some k \<Rightarrow> (if k = [] then None else Some (scan_linear k)))
      else if p = ''notion'' then
        (case environ ''NOTION_API_KEY'' of
           None \<Rightarrow> None
         | Some k \<Rightarrow> (if k = [] then None else Some (scan_notion k api)))
      else None)"
  by (simp add: scan_all_platforms_def credential_def init_platform_scan_results_def Let_def
      split: option.splits)

text \<open>
  Claim C6, amended, at an environment with a Notion key, an empty Jira token and no
  Linear key, over an empty workspace: Notion is recorded with the result of its scan,
  Jira and Linear have no entry.
\<close>

theorem platforms_recorded_iff_credential_witness:
  "platforms (scan_all_platforms
                (map_of [(''NOTION_API_KEY'', ''secret''), (''JIRA_API_TOKEN'', [])])
                (sample_api 0) (init_platform_scan_results (Naive 0))) ''notion''
     = Some (Success \<lparr>total_pages = 0, total_databases = 0, pages = [], databases = []\<rparr>)
   \<and> platforms (scan_all_platforms
                (map_of [(''NOTION_API_KEY'', ''secret''), (''JIRA_API_TOKEN'', [])])
                (sample_api 0) (init_platform_scan_results (Naive 0))) ''jira'' = None
   \<and> platforms (scan_all_platforms
                (map_of [(''NOTION_API_KEY'', ''secret''), (''JIRA_API_TOKEN'', [])])
                (sample_api 0) (init_platform_scan_results (Naive 0))) ''linear'' = None"
  using platforms_recorded_iff_credential
          [of "map_of [(''NOTION_API_KEY'', ''secret''), (''JIRA_API_TOKEN'', [])]"
              "sample_api 0" "Naive 0" "''notion''"]
        platforms_recorded_iff_credential
          [of "map_of [(''NOTION_API_KEY'', ''secret''), (''JIRA_API_TOKEN'', [])]"
              "sample_api 0" "Naive 0" "''jira''"]
        platforms_recorded_iff_credential
          [of "map_of [(''NOTION_API_KEY'', ''secret''), (''JIRA_API_TOKEN'', [])]"
              "sample_api 0" "Naive 0" "''linear''"]
  by (simp add: scan_notion_def scan_notion_body_def sample_api_def collect_pages_def
      collect_databases_def search_results_def py_get_def py_iter_def)

lemma map_exn_map: "map_exn f xs = Inr ys \<Longrightarrow> map f xs = map Inr ys"
  by (induction xs arbitrary: ys) (auto split: sum.splits)

text \<open>
  Claim C10. On a successful Notion scan both searches and both loops succeeded. The
  returned pages are the first 50 of the pages extracted from the enumerated page
  records, at most 50, while \<^verbatim>\<open>total_pages\<close> is the number of page records
  enumerated. The returned databases are the entries extracted from all the enumerated
  database records, one for each record and in their order, and \<^verbatim>\<open>total_databases\<close>
  is the number of those records: the databases are not truncated.
\<close>

theorem notion_pages_truncated_to_50:
  "scan_notion api_key api = Success s \<Longrightarrow>
   \<exists>results raw ps db_results db_raw ds.
     search_page api = Inr results \<and> search_results results = Inr raw
     \<and> map_exn extract_page raw = Inr ps \<and> map extract_page raw = map Inr ps
     \<and> search_database api = Inr db_results \<and> collect_databases db_results = Inr ds
     \<and> search_results db_results = Inr db_raw
     \<and> map_exn extract_database db_raw = Inr ds
     \<and> map extract_database db_raw = map Inr ds
     \<and> pages s = take 50 ps \<and> length (pages s) \<le> 50
     \<and> total_pages s = length raw
     \<and> databases s = ds \<and> total_databases s = length ds
     \<and> length (databases s) = length db_raw \<and> total_databases s = length db_raw"
proof -
  assume ok: "scan_notion api_key api = Success s"
  then obtain results ps db_results ds where
    sp: "search_page api = Inr results" and cp: "collect_pages results = Inr ps" and
    sd: "search_database api = Inr db_results" and
    cd: "collect_databases db_results = Inr ds" and
    s: "s = \<lparr>total_pages = length ps, total_databases = length ds, pages = take 50 ps,
             databases = ds\<rparr>"
    by (auto simp: scan_notion_def scan_notion_body_def split: sum.splits if_splits)
  from cp obtain raw where
    r: "search_results results = Inr raw" and m: "map_exn extract_page raw = Inr ps"
    by (auto simp: collect_pages_def split: sum.splits)
  from cd obtain db_raw where
    dr: "search_results db_results = Inr db_raw" and
    dm: "map_exn extract_database db_raw = Inr ds"
    by (auto simp: collect_databases_def split: sum.splits)
  have lp: "length ps = length raw" using m by (rule map_exn_length)
  have ld: "length ds = length db_raw" using dm by (rule map_exn_length)
  have mp: "map extract_page raw = map Inr ps" using m by (rule map_exn_map)
  have md: "map extract_database db_raw = map Inr ds" using dm by (rule map_exn_map)
  show ?thesis
    using sp r m mp sd cd dr dm md lp ld s by simp
qed

text \<open>
  Claim C10, at a workspace of 51 pages and 51 databases: the scan succeeds, reports
  51 pages and returns 50 of them, and returns all 51 databases.
\<close>

theorem notion_pages_truncated_to_50_witness:
  "scan_notion ''secret'' (sample_workspace 51 51)
     = Success \<lparr>total_pages = 51, total_databases = 51,
                pages = replicate 50 \<lparr>page_id = JStr ''page-1'', title = JStr ''Untitled'',
                                       url = JNull, created_time = JNull,
                                       last_edited_time = JNull\<rparr>,
                databases = replicate 51 \<lparr>db_id = JStr ''db-1'', title = JStr ''Tasks'',
                                           url = JNull\<rparr>\<rparr>
   \<and> length (pages \<lparr>total_pages = 51, total_databases = 51,
                pages = replicate 50 \<lparr>page_id = JStr ''page-1'', title = JStr ''Untitled'',
                                       url = JNull, created_time = JNull,
                                       last_edited_time = JNull\<rparr>,
                databases = replicate 51 \<lparr>db_id = JStr ''db-1'', title = JStr ''Tasks'',
                                           url = JNull\<rparr>\<rparr>) = 50
   \<and> length (databases \<lparr>total_pages = 51, total_databases = 51,
                pages = replicate 50 \<lparr>page_id = JStr ''page-1'', title = JStr ''Untitled'',
                                       url = JNull, created_time = JNull,
                                       last_edited_time = JNull\<rparr>,
                databases = replicate 51 \<lparr>db_id = JStr ''db-1'', title = JStr ''Tasks'',
                                           url = JNull\<rparr>\<rparr>) = 51"
proof -
  have e: "scan_notion ''secret'' (sample_workspace 51 51)
     = Success \<lparr>total_pages = 51, total_databases = 51,
                pages = replicate 50 \<lparr>page_id = JStr ''page-1'', title = JStr ''Untitled'',
                                       url = JNull, created_time = JNull,
                                       last_edited_time = JNull\<rparr>,
                databases = replicate 51 \<lparr>db_id = JStr ''db-1'', title = JStr ''Tasks'',
                                           url = JNull\<rparr>\<rparr>"
    by code_simp
  from notion_pages_truncated_to_50 [OF e] e show ?thesis by simp
qed

end
